theory Spec2Isabelle
  imports Main "HOL-Library.Multiset"
begin

section \<open>The schema declared in \<^verbatim>\<open>packages/api/src/schema.ts\<close>\<close>

text \<open>
  The builder calls of \<^verbatim>\<open>schema.ts\<close> are data: one object type (\<^verbatim>\<open>Post\<close>, with the three
  exposed columns), one query field and one mutation field. A field declaration is what
  the source writes: its \<^verbatim>\<open>type\<close> (an object type, or a one-element array of it for a
  list) and its \<^verbatim>\<open>args\<close> (absent means none).
\<close>

datatype type_expr = Ref string | List_of string

record arg_decl =
  arg_type :: string
  required :: bool

record field_decl =
  returns :: type_expr
  args :: "(string \<times> arg_decl) list"

record schema_graph =
  objects :: "(string \<times> (string \<times> string) list) list"
  queryType :: "(string \<times> field_decl) list"
  mutationType :: "(string \<times> field_decl) list"

definition PostType :: "string \<times> (string \<times> string) list" where
  "PostType = (''Post'', [(''id'', ''ID''), (''title'', ''String''), (''body'', ''String'')])"

definition posts_field :: field_decl where
  "posts_field = \<lparr>returns = List_of (fst PostType), args = []\<rparr>"

definition createPost_field :: field_decl where
  "createPost_field =
     \<lparr>returns = Ref (fst PostType),
      args = [(''title'', \<lparr>arg_type = ''String'', required = True\<rparr>),
              (''body'', \<lparr>arg_type = ''String'', required = True\<rparr>)]\<rparr>"

definition schema :: schema_graph where
  "schema =
     \<lparr>objects = [PostType],
      queryType = [(''posts'', posts_field)],
      mutationType = [(''createPost'', createPost_field)]\<rparr>"

section \<open>The file system and \<^verbatim>\<open>writeSchema\<close>\<close>

text \<open>
  A file system maps a path (its components below the root) to a directory or to a file
  with its contents. \<^verbatim>\<open>writeFile\<close> (flag \<^verbatim>\<open>w\<close>) creates or truncates the file; it does not
  create directories. \<^verbatim>\<open>mkdir\<close> with \<^verbatim>\<open>recursive: true\<close> creates every missing directory
  on the way and accepts the ones that exist. Permissions are not modelled.
\<close>

datatype node = Dir | File string

type_synonym fs = "string list \<Rightarrow> node option"

datatype errno = ENOENT | ENOTDIR | EISDIR | EEXIST

definition writeFile :: "fs \<Rightarrow> string list \<Rightarrow> string \<Rightarrow> errno + fs" where
  "writeFile fs p content =
     (if p = [] then Inl EISDIR
      else case fs (butlast p) of
        None \<Rightarrow> Inl ENOENT
      | Some (File _) \<Rightarrow> Inl ENOTDIR
      | Some Dir \<Rightarrow>
          (case fs p of
             Some Dir \<Rightarrow> Inl EISDIR
           | _ \<Rightarrow> Inr (fs(p \<mapsto> File content))))"

fun mkdir_from :: "string list \<Rightarrow> string list \<Rightarrow> fs \<Rightarrow> errno + fs" where
  "mkdir_from at [] fs =
     (case fs at of
        Some (File _) \<Rightarrow> Inl EEXIST
      | _ \<Rightarrow> Inr (fs(at \<mapsto> Dir)))"
| "mkdir_from at (d # ds) fs =
     (case fs at of
        Some (File _) \<Rightarrow> Inl ENOTDIR
      | _ \<Rightarrow> mkdir_from (at @ [d]) ds (fs(at \<mapsto> Dir)))"

definition mkdir_recursive :: "fs \<Rightarrow> string list \<Rightarrow> errno + fs" where
  "mkdir_recursive fs p = mkdir_from [] p fs"

subsection \<open>The URL of the artifact\<close>

text \<open>
  \<^verbatim>\<open>new URL("build/schema.graphql", `file:///${process.cwd()}/`)\<close> splices the working
  directory into a URL string and resolves the relative reference against it. The URL
  parser is the platform's; what follows is its path state for a \<^verbatim>\<open>file:\<close> URL with
  an empty host, which is where the parser is once it has read \<^verbatim>\<open>file:///\<close>: a segment
  ends at a slash or a backslash, the path ends at \<^verbatim>\<open>?\<close> or \<^verbatim>\<open>#\<close> (the query and the
  fragment are not part of the file's name), dot segments are resolved, tabs and newlines
  are dropped from the input. Percent escapes are left as they are: a working directory
  without \<^verbatim>\<open>%\<close> is not affected by them.
\<close>

definition is_single_dot :: "string \<Rightarrow> bool" where
  "is_single_dot buf \<longleftrightarrow> buf \<in> set [''.'', ''%2e'', ''%2E'']"

definition is_double_dot :: "string \<Rightarrow> bool" where
  "is_double_dot buf \<longleftrightarrow>
     buf \<in> set [''..'', ''.%2e'', ''.%2E'', ''%2e.'', ''%2E.'',
                    ''%2e%2e'', ''%2e%2E'', ''%2E%2e'', ''%2E%2E'']"

definition ascii_alpha :: "char \<Rightarrow> bool" where
  "ascii_alpha c \<longleftrightarrow>
     c \<in> set ''abcdefghijklmnopqrstuvwxyzABCDEFGHIJKLMNOPQRSTUVWXYZ''"

definition is_drive_letter :: "string \<Rightarrow> bool" where
  "is_drive_letter buf \<longleftrightarrow>
     (case buf of
        [a, b] \<Rightarrow> ascii_alpha a \<and> (b = CHR '':'' \<or> b = CHR ''|'')
      | _ \<Rightarrow> False)"

definition is_normalized_drive_letter :: "string \<Rightarrow> bool" where
  "is_normalized_drive_letter buf \<longleftrightarrow>
     (case buf of [a, b] \<Rightarrow> ascii_alpha a \<and> b = CHR '':'' | _ \<Rightarrow> False)"

definition shorten :: "string list \<Rightarrow> string list" where
  "shorten path =
     (if length path = 1 \<and> is_normalized_drive_letter (hd path) then path
      else butlast path)"

definition push_segment :: "string list \<Rightarrow> string \<Rightarrow> bool \<Rightarrow> string list" where
  \<comment> \<open>\<open>slash\<close>: the segment ended at a slash (not at the end of the path)\<close>
  "push_segment path buf slash =
     (if is_double_dot buf then (if slash then shorten path else shorten path @ [''''])
      else if is_single_dot buf then (if slash then path else path @ [''''])
      else if path = [] \<and> is_drive_letter buf then [[hd buf, CHR '':'']]
      else path @ [buf])"

fun path_state :: "string list \<Rightarrow> string \<Rightarrow> string \<Rightarrow> string list" where
  "path_state path buf [] = push_segment path buf False"
| "path_state path buf (c # cs) =
     (if c = CHR ''/'' \<or> c = CHR 0x5C then path_state (push_segment path buf True) [] cs
      else if c = CHR ''?'' \<or> c = CHR ''#'' then push_segment path buf False
      else path_state path (buf @ [c]) cs)"

definition strip_tab_newline :: "string \<Rightarrow> string" where
  "strip_tab_newline s = filter (\<lambda>c. c \<noteq> CHR 0x09 \<and> c \<noteq> CHR 0x0A \<and> c \<noteq> CHR 0x0D) s"

definition file_URL :: "string \<Rightarrow> string list" where
  \<comment> \<open>the path of \<^verbatim>\<open>new URL("file:///" + rest)\<close>\<close>
  "file_URL rest = path_state [] [] (strip_tab_newline rest)"

definition file_URL_relative :: "string \<Rightarrow> string \<Rightarrow> string list" where
  \<comment> \<open>the path of \<^verbatim>\<open>new URL(rel, "file:///" + rest)\<close>, \<open>rel\<close> a relative path\<close>
  "file_URL_relative rel rest =
     path_state (shorten (file_URL rest)) [] (strip_tab_newline rel)"

definition fileURLToPath :: "string list \<Rightarrow> string list" where
  \<comment> \<open>the components of the file name: repeated slashes name the same file\<close>
  "fileURLToPath segments = filter (\<lambda>s. s \<noteq> []) segments"

definition schema_path :: "string \<Rightarrow> string list" where
  "schema_path cwd = fileURLToPath (file_URL_relative ''build/schema.graphql'' (cwd @ ''/''))"

text \<open>
  \<^verbatim>\<open>writeSchema\<close> of \<^verbatim>\<open>packages/api/src/schema.ts\<close>: one \<^verbatim>\<open>writeFile\<close> of the printed schema.
  \<^verbatim>\<open>printSchema\<close> is the GraphQL library's and a parameter here.
\<close>

definition writeSchema :: "(schema_graph \<Rightarrow> string) \<Rightarrow> string \<Rightarrow> fs \<Rightarrow> errno + fs" where
  "writeSchema printSchema cwd fs = writeFile fs (schema_path cwd) (printSchema schema)"

text \<open>
  The other \<^verbatim>\<open>writeSchema\<close> among the sources (\<^verbatim>\<open>src/unnamed/part_001\<close>) first makes the
  \<^verbatim>\<open>build/\<close> directory.
\<close>

definition build_dir :: "string \<Rightarrow> string list" where
  "build_dir cwd = fileURLToPath (file_URL (cwd @ ''/build/''))"

definition writeSchema_part_001 ::
  "(schema_graph \<Rightarrow> string) \<Rightarrow> string \<Rightarrow> fs \<Rightarrow> errno + fs" where
  "writeSchema_part_001 printSchema cwd fs =
     (case mkdir_recursive fs (build_dir cwd) of
        Inl e \<Rightarrow> Inl e
      | Inr fs' \<Rightarrow> writeFile fs' (schema_path cwd) (printSchema schema))"

text \<open>
  An ordinary directory name is not empty, is not a dot segment and has no slash,
  backslash, \<^verbatim>\<open>?\<close>, \<^verbatim>\<open>#\<close>, \<^verbatim>\<open>%\<close>, tab or newline; \<open>path_string\<close> writes a list of names as
  the absolute path that \<^verbatim>\<open>process.cwd()\<close> returns for it.
\<close>

definition plain_char :: "char \<Rightarrow> bool" where
  "plain_char c \<longleftrightarrow>
     c \<notin> set [CHR ''/'', CHR 0x5C, CHR ''?'', CHR ''#'', CHR ''%'', CHR 0x09, CHR 0x0A, CHR 0x0D]"

definition plain_name :: "string \<Rightarrow> bool" where
  "plain_name d \<longleftrightarrow> d \<noteq> [] \<and> list_all plain_char d \<and> d \<noteq> ''.'' \<and> d \<noteq> ''..''"

definition path_string :: "string list \<Rightarrow> string" where
  "path_string ds = concat (map (\<lambda>d. CHR ''/'' # d) ds)"

section \<open>The data-access contract and the resolvers\<close>

text \<open>
  Modelled from the spec: the Model Contract \<^verbatim>\<open>create(fields) -> Entity\<close>,
  \<^verbatim>\<open>list(order, limit) -> sequence<Entity>\<close>, which the resolvers reach through the Prisma
  client (an external collaborator, not among the sources). The table is the list of its
  rows in insertion order; the identifier is the auto-incremented key of the \<^verbatim>\<open>Post\<close>
  model. \<^verbatim>\<open>findMany\<close> orders by identifier when asked to and keeps the first \<^verbatim>\<open>take\<close> rows
  when a count is given. The \<^verbatim>\<open>query\<close> object that the builder hands to a resolver selects
  columns only; it is carried along and decides neither order nor number of the rows.
\<close>

record post =
  post_id :: int
  post_title :: string
  post_body :: string

datatype sort_order = Asc | Desc

record 'q findMany_args =
  spread :: 'q
  orderBy_id :: "sort_order option"
  take_opt :: "nat option"

definition next_id :: "post list \<Rightarrow> int" where
  "next_id rows = foldr max (map post_id rows) 0 + 1"

definition create :: "post list \<Rightarrow> string \<Rightarrow> string \<Rightarrow> post \<times> post list" where
  "create rows title body =
     (let p = \<lparr>post_id = next_id rows, post_title = title, post_body = body\<rparr>
      in (p, rows @ [p]))"

definition findMany :: "post list \<Rightarrow> 'q findMany_args \<Rightarrow> post list" where
  "findMany rows a =
     (let ordered =
        (case orderBy_id a of
           None \<Rightarrow> rows
         | Some Asc \<Rightarrow> sort_key post_id rows
         | Some Desc \<Rightarrow> sort_key (\<lambda>p. - post_id p) rows)
      in case take_opt a of None \<Rightarrow> ordered | Some n \<Rightarrow> take n ordered)"

text \<open>
  The resolvers of \<^verbatim>\<open>schema.ts\<close>:
  \<^verbatim>\<open>prisma.post.findMany({ ...query, orderBy: { id: "desc" } })\<close> and
  \<^verbatim>\<open>prisma.post.create({ ...query, data: { title, body } })\<close>.
\<close>

definition posts_resolve :: "'q \<Rightarrow> post list \<Rightarrow> post list" where
  "posts_resolve query rows =
     findMany rows \<lparr>spread = query, orderBy_id = Some Desc, take_opt = None\<rparr>"

text \<open>
  The \<^verbatim>\<open>posts\<close> resolver as \<^verbatim>\<open>src/unnamed/part_005\<close> and \<^verbatim>\<open>part_006\<close> list it for
  \<^verbatim>\<open>src/schema.ts\<close>, under the comment \<^verbatim>\<open>Return the 10 most recent posts\<close>:
  \<^verbatim>\<open>prisma.post.findMany({ ...query, orderBy: { id: "desc" }, take: 10 })\<close>.
\<close>

definition posts_resolve_part_005 :: "'q \<Rightarrow> post list \<Rightarrow> post list" where
  "posts_resolve_part_005 query rows =
     findMany rows \<lparr>spread = query, orderBy_id = Some Desc, take_opt = Some 10\<rparr>"

definition createPost_resolve ::
  "'q \<Rightarrow> string \<Rightarrow> string \<Rightarrow> post list \<Rightarrow> post \<times> post list" where
  "createPost_resolve query title body rows = create rows title body"

text \<open>Entities created in order: one \<^verbatim>\<open>createPost\<close> per title and body, first to last.\<close>

fun create_all :: "(string \<times> string) list \<Rightarrow> post list \<Rightarrow> post list" where
  "create_all [] rows = rows"
| "create_all ((title, body) # rest) rows =
     create_all rest (snd (createPost_resolve () title body rows))"

section \<open>The server: \<^verbatim>\<open>index.ts\<close>\<close>

text \<open>
  Starting the server (\<^verbatim>\<open>src/unnamed/part_000\<close>) listens on the port and then awaits
  \<^verbatim>\<open>writeSchema()\<close>; a rejection of that top-level \<^verbatim>\<open>await\<close> ends the process. A request
  is executed by the resolver of its root field.
\<close>

record server =
  files :: fs
  rows_of :: "post list"
  listening :: bool


datatype operation = Posts | CreatePost string string


section \<open>The generated tables: \<^verbatim>\<open>const.ts\<close>\<close>

text \<open>The tables of \<^verbatim>\<open>src/unnamed/part_003\<close>, as association lists in the source's order.\<close>

definition AllTypesProps :: "(string \<times> (string \<times> (string \<times> string) list) list) list" where
  "AllTypesProps = [(''Mutation'', [(''createPost'', [])])]"

definition ReturnTypes :: "(string \<times> (string \<times> string) list) list" where
  "ReturnTypes =
     [(''Mutation'', [(''createPost'', ''Post'')]),
      (''Post'', [(''body'', ''String''), (''id'', ''ID''), (''title'', ''String'')]),
      (''Query'', [(''posts'', ''Post'')])]"

definition Ops :: "(string \<times> string) list" where
  "Ops = [(''mutation'', ''Mutation''), (''query'', ''Query'')]"

section \<open>The transport wrapper: \<^verbatim>\<open>src/lib/zeus.ts\<close>\<close>

text \<open>
  The wrapper sends the JSON document that \<^verbatim>\<open>JSON.stringify({ query, variables })\<close>
  serialises and reads the one that \<^verbatim>\<open>response.json()\<close> parses; the model works on the
  documents. A member whose value is \<^verbatim>\<open>undefined\<close> (\<open>None\<close>) is left out by
  \<^verbatim>\<open>JSON.stringify\<close>. A response whose body is not JSON makes \<^verbatim>\<open>response.json()\<close> reject
  (\<open>SyntaxError\<close>); destructuring \<^verbatim>\<open>{ data }\<close> throws on \<^verbatim>\<open>null\<close> (\<open>TypeError\<close>), gives
  the member of an object and \<^verbatim>\<open>undefined\<close> for anything else. \<^verbatim>\<open>fetch\<close> is a capability
  acting on the world \<open>'w\<close>: it answers with a response, or rejects (\<open>None\<close>) when the
  network fails; it does not reject on an HTTP error status.
\<close>

datatype json =
  JNull | JBool bool | JNum int | JStr string | JArr "json list"
  | JObj "(string \<times> json) list"

record request =
  url :: string
  "method" :: string
  headers :: "(string \<times> string) list"
  body :: json

record response =
  status :: nat
  json_of :: "json option"

datatype failure = FetchRejected | SyntaxError | TypeError

type_synonym 'w fetch = "request \<Rightarrow> 'w \<Rightarrow> response option \<times> 'w"

definition JSON_stringify :: "(string \<times> json option) list \<Rightarrow> json" where
  "JSON_stringify members = JObj (List.map_filter (\<lambda>(k, v). map_option (Pair k) v) members)"

fun data_of :: "json \<Rightarrow> failure + json option" where
  "data_of JNull = Inl TypeError"
| "data_of (JObj members) = Inr (map_of members ''data'')"
| "data_of _ = Inr None"

text \<open>
  Modelled from the spec: \<^verbatim>\<open>Thunder\<close> of the generated client (\<^verbatim>\<open>src/zeus/index.ts\<close> is not
  among the sources). It hands the operation text of a request, and the variables given
  with the request, to the function it wraps and returns what that function returns. How
  a request object becomes text is the generator's and a parameter here (\<open>Zeus\<close>).
  \<^verbatim>\<open>query\<close> and \<^verbatim>\<open>mutate\<close> call the function that \<^verbatim>\<open>thunder(fetch)(...)\<close> returns with the
  request object alone: they give no variables.
\<close>

definition Thunder ::
  "(string \<Rightarrow> 'm \<Rightarrow> string) \<Rightarrow> (string \<Rightarrow> json option \<Rightarrow> 'w \<Rightarrow> 'r \<times> 'w)
     \<Rightarrow> string \<Rightarrow> 'm \<Rightarrow> json option \<Rightarrow> 'w \<Rightarrow> 'r \<times> 'w" where
  "Thunder Zeus fn operation m variables w = fn (Zeus operation m) variables w"

definition thunder ::
  "(string \<Rightarrow> 'm \<Rightarrow> string) \<Rightarrow> 'w fetch
     \<Rightarrow> string \<Rightarrow> 'm \<Rightarrow> json option \<Rightarrow> 'w \<Rightarrow> (failure + json option) \<times> 'w" where
  "thunder Zeus fetch =
     Thunder Zeus (\<lambda>query variables w.
       case fetch
              \<lparr>url = ''http://localhost:4000/graphql'',
               method = ''POST'',
               headers = [(''Content-Type'', ''application/json'')],
               body = JSON_stringify [(''query'', Some (JStr query)),
                                      (''variables'', variables)]\<rparr> w of
         (None, w') \<Rightarrow> (Inl FetchRejected, w')
       | (Some response, w') \<Rightarrow>
           (case json_of response of
              None \<Rightarrow> (Inl SyntaxError, w')
            | Some document \<Rightarrow> (data_of document, w')))"

definition mutate ::
  "(string \<Rightarrow> 'm \<Rightarrow> string) \<Rightarrow> 'w fetch
     \<Rightarrow> 'm \<Rightarrow> 'w \<Rightarrow> (failure + json option) \<times> 'w" where
  \<comment> \<open>the second argument is the ambient \<^verbatim>\<open>fetch\<close>\<close>
  "mutate Zeus fetch mutation = thunder Zeus fetch ''mutation'' mutation None"

definition query ::
  "(string \<Rightarrow> 'm \<Rightarrow> string) \<Rightarrow> 'm \<Rightarrow> 'w fetch
     \<Rightarrow> 'w \<Rightarrow> (failure + json option) \<times> 'w" where
  "query Zeus q fetch = thunder Zeus fetch ''query'' q None"

text \<open>
  A network that records every request it is sent and answers as \<open>server\<close> does; the
  world is the list of the requests sent so far.
\<close>

definition network :: "(request \<Rightarrow> response option) \<Rightarrow> request list fetch" where
  "network server req sent = (server req, sent @ [req])"

section \<open>Result types narrowed by a selection\<close>

text \<open>
  Modelled from the spec: the structural type derivation of the Typed Request Generator.
  Of the generated client only the tables of \<^verbatim>\<open>const.ts\<close> are among the sources; the type
  definitions that narrow a result type are not. A result type lists its fields with
  their scalar kind and nullability; a selection shape marks fields wanted or not wanted;
  the derived type keeps the wanted fields of the result type as declared; a selection
  that requests no field is a generation-time error.
\<close>

record field_type =
  kind :: string
  nullable :: bool

type_synonym result_type = "(string \<times> field_type) list"

type_synonym selection = "(string \<times> bool) list"

datatype generation_error = EmptySelection

definition wanted :: "selection \<Rightarrow> string list" where
  "wanted S = map fst (filter snd S)"

definition derive :: "result_type \<Rightarrow> selection \<Rightarrow> generation_error + result_type" where
  "derive T S =
     (if wanted S = [] then Inl EmptySelection
      else Inr (filter (\<lambda>(f, t). f \<in> set (wanted S)) T))"

section \<open>Concrete inputs\<close>

text \<open>
  The \<^verbatim>\<open>Post\<close> result type: the fields of \<^verbatim>\<open>ReturnTypes\<close>, each non-null as the published
  schema of the README has them (\<^verbatim>\<open>ID!\<close>, \<^verbatim>\<open>String!\<close>).
\<close>

definition Post_type :: result_type where
  "Post_type =
     (case map_of ReturnTypes ''Post'' of
        None \<Rightarrow> []
      | Some entries \<Rightarrow> map (\<lambda>(f, k). (f, \<lparr>kind = k, nullable = False\<rparr>)) entries)"

text \<open>A checkout in \<^verbatim>\<open>/app\<close> that was never built, and one that was.\<close>

definition checkout_without_build :: fs where
  "checkout_without_build = [[] \<mapsto> Dir, [''app''] \<mapsto> Dir]"

definition checkout_built :: fs where
  "checkout_built =
     [[] \<mapsto> Dir, [''app''] \<mapsto> Dir, [''app'', ''build''] \<mapsto> Dir,
      [''app'', ''build'', ''schema.graphql''] \<mapsto> File ''type Query'']"

text \<open>The text that the README shows for \<^verbatim>\<open>build/schema.graphql\<close>, line by line.\<close>

definition README_schema_graphql :: string where
  "README_schema_graphql =
     concat (map (\<lambda>l. l @ [CHR 0x0A])
       [''type Post {'', ''  id: ID!'', ''  body: String!'', ''  title: String!'', ''}'', [],
        ''type Query {'', ''  posts: [Post!]!'', ''}'', [],
        ''type Mutation {'', ''  createPost(body: String!, title: String!): Post!'', ''}''])"

text \<open>
  The mutation of \<^verbatim>\<open>+page.svelte\<close>, \<^verbatim>\<open>{ createPost: [{ body, title }, { id: true }] }\<close>, with
  title \<^verbatim>\<open>A\<close> and body \<^verbatim>\<open>B\<close>: each root field with its arguments and its selection.
\<close>

type_synonym zeus_request = "(string \<times> (string \<times> json) list \<times> selection) list"

definition createPost_mutation :: zeus_request where
  "createPost_mutation =
     [(''createPost'', [(''body'', JStr ''B''), (''title'', JStr ''A'')], [(''id'', True)])]"

text \<open>
  The two operations in GraphQL, in the form the README writes them for the GraphiQL
  console, the mutation with title \<^verbatim>\<open>A\<close> and body \<^verbatim>\<open>B\<close>.
\<close>

definition posts_text :: string where
  "posts_text = ''query { posts { id title body } }''"

definition createPost_text :: string where
  "createPost_text =
     ''mutation { createPost(title: '' @ [CHR 0x22] @ ''A'' @ [CHR 0x22]
       @ '', body: '' @ [CHR 0x22] @ ''B'' @ [CHR 0x22] @ '') { id } }''"

definition created_response :: response where
  "created_response =
     \<lparr>status = 200,
      json_of = Some (JObj [(''data'', JObj [(''createPost'', JObj [(''id'', JStr ''1'')])])])\<rparr>"

definition errors_response :: response where
  "errors_response =
     \<lparr>status = 500,
      json_of = Some (JObj [(''errors'', JArr [JObj [(''message'', JStr ''boom'')]])])\<rparr>"

text \<open>The query of \<^verbatim>\<open>+page.ts\<close>: \<^verbatim>\<open>{ posts: { id: true, title: true, body: true } }\<close>.\<close>

definition posts_query :: zeus_request where
  "posts_query = [(''posts'', [], [(''id'', True), (''title'', True), (''body'', True)])]"

section \<open>Shared facts\<close>

lemma map_of_filter_key:
  "P f \<Longrightarrow> map_of (filter (\<lambda>(k, v). P k) T) f = map_of T f"
  by (induction T) auto

lemma posts_resolve_sort: "posts_resolve q rows = sort_key (\<lambda>p. - post_id p) rows"
  by (simp add: posts_resolve_def findMany_def)

lemma three_created:
  "create_all [(t1, b1), (t2, b2), (t3, b3)] [] =
     [\<lparr>post_id = 1, post_title = t1, post_body = b1\<rparr>,
      \<lparr>post_id = 2, post_title = t2, post_body = b2\<rparr>,
      \<lparr>post_id = 3, post_title = t3, post_body = b3\<rparr>]"
  by (simp add: createPost_resolve_def create_def next_id_def Let_def)

lemma schema_path_app: "schema_path ''/app'' = [''app'', ''build'', ''schema.graphql'']"
  by code_simp

lemma build_dir_app: "build_dir ''/app'' = [''app'', ''build'']"
  by code_simp

lemma writeFile_twice: "writeFile fs p content = Inr fs1 \<Longrightarrow> writeFile fs1 p content = Inr fs1"
  by (auto simp: writeFile_def split: if_splits option.splits node.splits)

lemma writeFile_content: "writeFile fs p content = Inr fs1 \<Longrightarrow> fs1 p = Some (File content)"
  by (auto simp: writeFile_def split: if_splits option.splits node.splits)

lemma thunder_network:
  "thunder Zeus (network server) operation request variables sent =
     ((case server \<lparr>url = ''http://localhost:4000/graphql'', method = ''POST'',
                     headers = [(''Content-Type'', ''application/json'')],
                     body = JSON_stringify [(''query'', Some (JStr (Zeus operation request))),
                                            (''variables'', variables)]\<rparr> of
         None \<Rightarrow> Inl FetchRejected
       | Some response \<Rightarrow>
           (case json_of response of
              None \<Rightarrow> Inl SyntaxError
            | Some document \<Rightarrow> data_of document)),
      sent @ [\<lparr>url = ''http://localhost:4000/graphql'', method = ''POST'',
               headers = [(''Content-Type'', ''application/json'')],
               body = JSON_stringify [(''query'', Some (JStr (Zeus operation request))),
                                      (''variables'', variables)]\<rparr>])"
  by (simp add: thunder_def Thunder_def network_def split: option.splits)

lemma data_of_cases:
  "data_of document =
     (case document of
        JNull \<Rightarrow> Inl TypeError
      | JObj members \<Rightarrow> Inr (map_of members ''data'')
      | _ \<Rightarrow> Inr None)"
  by (cases document) simp_all

section \<open>Working directories with ordinary names\<close>

text \<open>
  For a working directory made of ordinary names the artifact is
  \<^verbatim>\<open>build/schema.graphql\<close> below it, different directories give different files, and the
  \<^verbatim>\<open>writeSchema\<close> that makes the directory first succeeds whenever no file is in the way.
\<close>

lemma plain_not_dot: "plain_name d \<Longrightarrow> \<not> is_single_dot d \<and> \<not> is_double_dot d"
  by (auto simp: plain_name_def is_single_dot_def is_double_dot_def plain_char_def)

lemma path_state_plain:
  "list_all plain_char d \<Longrightarrow> path_state p buf (d @ rest) = path_state p (buf @ d) rest"
  by (induction d arbitrary: buf) (auto simp: plain_char_def)

lemma push_plain: "plain_name d \<Longrightarrow> p \<noteq> [] \<Longrightarrow> push_segment p d slash = p @ [d]"
  using plain_not_dot [of d] by (simp add: push_segment_def)

lemma path_state_names:
  "list_all plain_name ds \<Longrightarrow> p \<noteq> [] \<Longrightarrow>
     path_state p [] (concat (map (\<lambda>d. d @ ''/'') ds) @ rest) = path_state (p @ ds) [] rest"
proof (induction ds arbitrary: p)
  case Nil
  then show ?case by simp
next
  case (Cons d ds)
  then have d: "plain_name d" and ds: "list_all plain_name ds" by simp_all
  from d have pc: "list_all plain_char d" by (simp add: plain_name_def)
  have "path_state p [] (concat (map (\<lambda>d. d @ ''/'') (d # ds)) @ rest)
      = path_state p [] (d @ (CHR ''/'' # concat (map (\<lambda>d. d @ ''/'') ds) @ rest))"
    by simp
  also have "\<dots> = path_state p d (CHR ''/'' # concat (map (\<lambda>d. d @ ''/'') ds) @ rest)"
    using path_state_plain [OF pc, of p "[]"] by simp
  also have "\<dots> = path_state (p @ [d]) [] (concat (map (\<lambda>d. d @ ''/'') ds) @ rest)"
    using push_plain [OF d \<open>p \<noteq> []\<close>] by simp
  also have "\<dots> = path_state ((p @ [d]) @ ds) [] rest"
    using Cons.IH [OF ds, of "p @ [d]"] by simp
  finally show ?case by simp
qed

lemma path_string_slash:
  "path_string ds @ ''/'' = CHR ''/'' # concat (map (\<lambda>d. d @ ''/'') ds)"
  by (induction ds) (simp_all add: path_string_def)

lemma strip_plain: "list_all plain_name ds \<Longrightarrow> strip_tab_newline (path_string ds @ suffix) = path_string ds @ strip_tab_newline suffix"
  by (induction ds) (auto simp: path_string_def strip_tab_newline_def plain_name_def plain_char_def list_all_iff filter_id_conv)

lemma file_URL_plain:
  assumes "list_all plain_name ds"
  shows "file_URL (path_string ds @ ''/'') = [] # ds @ [[]]"
proof -
  have "file_URL (path_string ds @ ''/'') = path_state [] [] (path_string ds @ ''/'')"
    using strip_plain [OF assms, of "''/''"] by (simp add: file_URL_def strip_tab_newline_def)
  also have "\<dots> = path_state [[]] [] (concat (map (\<lambda>d. d @ ''/'') ds) @ [])"
    by (simp add: path_string_slash push_segment_def is_single_dot_def is_double_dot_def
        is_drive_letter_def)
  also have "\<dots> = path_state ([[]] @ ds) [] []"
    by (rule path_state_names [OF assms]) simp
  also have "\<dots> = [] # ds @ [[]]"
    by (simp add: push_segment_def is_single_dot_def is_double_dot_def)
  finally show ?thesis .
qed

lemma path_state_build:
  "p \<noteq> [] \<Longrightarrow> path_state p [] ''build/schema.graphql'' = p @ [''build'', ''schema.graphql'']"
  by (simp add: push_segment_def is_single_dot_def is_double_dot_def)

lemma schema_path_plain:
  assumes "list_all plain_name ds"
  shows "schema_path (path_string ds) = ds @ [''build'', ''schema.graphql'']"
proof -
  have sh: "shorten ([] # ds @ [[]]) = [] # ds"
    by (simp add: shorten_def butlast_append)
  have ne: "filter (\<lambda>s. s \<noteq> []) ds = ds"
    using assms by (auto simp: filter_id_conv list_all_iff plain_name_def)
  have rel: "file_URL_relative ''build/schema.graphql'' (path_string ds @ ''/'')
      = path_state ([] # ds) [] ''build/schema.graphql''"
    by (simp add: file_URL_relative_def file_URL_plain [OF assms] sh strip_tab_newline_def)
  have "path_state ([] # ds) [] ''build/schema.graphql'' = ([] # ds) @ [''build'', ''schema.graphql'']"
    by (rule path_state_build) simp
  with rel show ?thesis
    by (simp add: schema_path_def fileURLToPath_def ne)
qed

lemma schema_path_plain_inj:
  "list_all plain_name ds \<Longrightarrow> list_all plain_name ds' \<Longrightarrow> ds \<noteq> ds' \<Longrightarrow>
     schema_path (path_string ds) \<noteq> schema_path (path_string ds')"
  by (simp add: schema_path_plain)

lemma mkdir_from_creates:
  "(\<forall>n \<le> length ds. \<forall>c. fs (at @ take n ds) \<noteq> Some (File c)) \<Longrightarrow>
     \<exists>fs'. mkdir_from at ds fs = Inr fs' \<and> fs' (at @ ds) = Some Dir
       \<and> (\<forall>p. (\<forall>n \<le> length ds. p \<noteq> at @ take n ds) \<longrightarrow> fs' p = fs p)"
proof (induction ds arbitrary: at fs)
  case Nil
  then show ?case by (auto split: option.splits node.splits)
next
  case (Cons d ds)
  from Cons.prems have here: "\<forall>c. fs at \<noteq> Some (File c)" by (metis append_Nil2 le0 take_0)
  have step: "\<forall>n \<le> length ds. \<forall>c. (fs(at \<mapsto> Dir)) ((at @ [d]) @ take n ds) \<noteq> Some (File c)"
  proof (intro allI impI)
    fix n c assume n: "n \<le> length ds"
    from Cons.prems n have "fs (at @ take (Suc n) (d # ds)) \<noteq> Some (File c)"
      by (metis Suc_le_mono length_Cons)
    then show "(fs(at \<mapsto> Dir)) ((at @ [d]) @ take n ds) \<noteq> Some (File c)" by simp
  qed
  from Cons.IH [OF step] obtain fs' where
    fs': "mkdir_from (at @ [d]) ds (fs(at \<mapsto> Dir)) = Inr fs'"
      "fs' ((at @ [d]) @ ds) = Some Dir"
      "\<forall>p. (\<forall>n \<le> length ds. p \<noteq> (at @ [d]) @ take n ds) \<longrightarrow> fs' p = (fs(at \<mapsto> Dir)) p"
    by blast
  have run: "mkdir_from at (d # ds) fs = Inr fs'"
    using here fs'(1) by (auto split: option.splits node.splits)
  have frame: "fs' p = fs p" if p: "\<forall>n \<le> length (d # ds). p \<noteq> at @ take n (d # ds)" for p
  proof -
    from p have "p \<noteq> at" by (metis append_Nil2 le0 take_0)
    moreover have "\<forall>n \<le> length ds. p \<noteq> (at @ [d]) @ take n ds"
    proof (intro allI impI)
      fix n assume "n \<le> length ds"
      with p have "p \<noteq> at @ take (Suc n) (d # ds)" by (metis Suc_le_mono length_Cons)
      then show "p \<noteq> (at @ [d]) @ take n ds" by simp
    qed
    ultimately show ?thesis using fs'(3) by simp
  qed
  from run fs'(2) frame show ?case by auto
qed


lemma build_dir_plain:
  assumes "list_all plain_name ds"
  shows "build_dir (path_string ds) = ds @ [''build'']"
proof -
  have b: "plain_name ''build''" by (simp add: plain_name_def plain_char_def)
  have all: "list_all plain_name (ds @ [''build''])" using assms b by simp
  have eq: "path_string ds @ ''/build/'' = path_string (ds @ [''build'']) @ ''/''"
    by (simp add: path_string_def)
  have "file_URL (path_string ds @ ''/build/'') = [] # (ds @ [''build'']) @ [[]]"
    unfolding eq by (rule file_URL_plain [OF all])
  moreover have "filter (\<lambda>s. s \<noteq> []) ds = ds"
    using assms by (auto simp: filter_id_conv list_all_iff plain_name_def)
  ultimately show ?thesis by (simp add: build_dir_def fileURLToPath_def)
qed

lemma writeSchema_part_001_creates_build:
  assumes names: "list_all plain_name ds"
    and free: "\<forall>n \<le> Suc (length ds). \<forall>c. fs (take n (ds @ [''build''])) \<noteq> Some (File c)"
    and target: "fs (ds @ [''build'', ''schema.graphql'']) \<noteq> Some Dir"
  shows "\<exists>fs'. writeSchema_part_001 printSchema (path_string ds) fs = Inr fs'
           \<and> fs' (ds @ [''build'', ''schema.graphql'']) = Some (File (printSchema schema))"
proof -
  let ?b = "ds @ [''build'']" and ?t = "ds @ [''build'', ''schema.graphql'']"
  from free have "\<forall>n \<le> length ?b. \<forall>c. fs ([] @ take n ?b) \<noteq> Some (File c)" by simp
  from mkdir_from_creates [OF this] obtain fs1 where
    made: "mkdir_from [] ?b fs = Inr fs1" "fs1 ?b = Some Dir"
      and frame: "\<forall>p. (\<forall>n \<le> length ?b. p \<noteq> [] @ take n ?b) \<longrightarrow> fs1 p = fs p"
    by auto
  have "\<forall>n \<le> length ?b. ?t \<noteq> [] @ take n ?b"
  proof (intro allI impI)
    fix n assume "n \<le> length ?b"
    then have "length (take n ?b) < length ?t" by simp
    then show "?t \<noteq> [] @ take n ?b" by (metis append_Nil less_irrefl)
  qed
  with frame have "fs1 ?t = fs ?t" by blast
  with target have t1: "fs1 ?t \<noteq> Some Dir" by simp
  have bl: "butlast ?t = ?b" by (simp add: butlast_append)
  have "writeFile fs1 ?t (printSchema schema) = Inr (fs1(?t \<mapsto> File (printSchema schema)))"
    using made(2) t1 bl by (auto simp: writeFile_def split: option.splits node.splits)
  then show ?thesis
    using made(1)
    by (simp add: writeSchema_part_001_def mkdir_recursive_def build_dir_plain [OF names]
        schema_path_plain [OF names])
qed

section \<open>The \<^verbatim>\<open>posts\<close> resolver, without and with a count\<close>

text \<open>
  The resolver of \<^verbatim>\<open>schema.ts\<close> returns every row, by identifier descending; the one listed
  with \<^verbatim>\<open>take: 10\<close> returns at most ten rows, by identifier descending. Both return P3, P2,
  P1 for entities created in the order P1, P2, P3.
\<close>

lemma posts_resolve_part_005_take:
  "posts_resolve_part_005 q rows = take 10 (posts_resolve q rows)"
  by (simp add: posts_resolve_part_005_def posts_resolve_def findMany_def)

lemma posts_resolve_all_descending:
  "mset (posts_resolve q rows) = mset rows
   \<and> sorted_wrt (\<lambda>a b. post_id b \<le> post_id a) (posts_resolve q rows)
   \<and> posts_resolve q (create_all [(t1, b1), (t2, b2), (t3, b3)] []) =
       [\<lparr>post_id = 3, post_title = t3, post_body = b3\<rparr>,
        \<lparr>post_id = 2, post_title = t2, post_body = b2\<rparr>,
        \<lparr>post_id = 1, post_title = t1, post_body = b1\<rparr>]"
proof (intro conjI)
  show "mset (posts_resolve q rows) = mset rows"
    by (simp add: posts_resolve_sort)
  have "sorted (map (\<lambda>p. - post_id p) (sort_key (\<lambda>p. - post_id p) rows))"
    by (rule sorted_sort_key)
  then show "sorted_wrt (\<lambda>a b. post_id b \<le> post_id a) (posts_resolve q rows)"
    by (simp add: posts_resolve_sort sorted_map)
  show "posts_resolve q (create_all [(t1, b1), (t2, b2), (t3, b3)] []) =
       [\<lparr>post_id = 3, post_title = t3, post_body = b3\<rparr>,
        \<lparr>post_id = 2, post_title = t2, post_body = b2\<rparr>,
        \<lparr>post_id = 1, post_title = t1, post_body = b1\<rparr>]"
    unfolding three_created posts_resolve_sort by simp
qed

lemma posts_resolve_part_005_at_most_ten:
  "length (posts_resolve_part_005 q rows) \<le> 10
   \<and> sorted_wrt (\<lambda>a b. post_id b \<le> post_id a) (posts_resolve_part_005 q rows)
   \<and> posts_resolve_part_005 q (create_all [(t1, b1), (t2, b2), (t3, b3)] []) =
       [\<lparr>post_id = 3, post_title = t3, post_body = b3\<rparr>,
        \<lparr>post_id = 2, post_title = t2, post_body = b2\<rparr>,
        \<lparr>post_id = 1, post_title = t1, post_body = b1\<rparr>]"
proof (intro conjI)
  show "length (posts_resolve_part_005 q rows) \<le> 10"
    by (simp add: posts_resolve_part_005_take)
  from posts_resolve_all_descending [of q rows]
  have "sorted_wrt (\<lambda>a b. post_id b \<le> post_id a) (posts_resolve q rows)" by simp
  then show "sorted_wrt (\<lambda>a b. post_id b \<le> post_id a) (posts_resolve_part_005 q rows)"
    unfolding posts_resolve_part_005_take by (rule sorted_wrt_take)
  from posts_resolve_all_descending [of q rows t1 b1 t2 b2 t3 b3]
  show "posts_resolve_part_005 q (create_all [(t1, b1), (t2, b2), (t3, b3)] []) =
       [\<lparr>post_id = 3, post_title = t3, post_body = b3\<rparr>,
        \<lparr>post_id = 2, post_title = t2, post_body = b2\<rparr>,
        \<lparr>post_id = 1, post_title = t1, post_body = b1\<rparr>]"
    by (simp add: posts_resolve_part_005_take)
qed

lemma eleven_all:
  "length (posts_resolve () (create_all (replicate 11 (''t'', ''b'')) [])) = 11"
  by code_simp

lemma eleven_part_005:
  "map post_id (posts_resolve_part_005 () (create_all (replicate 11 (''t'', ''b'')) []))
     = [11, 10, 9, 8, 7, 6, 5, 4, 3, 2]"
  by code_simp

lemma three_all:
  "map post_id (posts_resolve () (create_all [(''a'', ''x''), (''b'', ''y''), (''c'', ''z'')] []))
     = [3, 2, 1]"
  by code_simp

lemma three_part_005:
  "map post_id (posts_resolve_part_005 ()
       (create_all [(''a'', ''x''), (''b'', ''y''), (''c'', ''z'')] []))
     = [3, 2, 1]"
  by code_simp

section \<open>The typed request layer\<close>

text \<open>
  C1. For every selection shape \<open>S\<close> over a result type \<open>T\<close>, the derived result type has
  exactly the fields that \<open>S\<close> wants and \<open>T\<close> declares, each with the kind and nullability
  \<open>T\<close> gives it; the one selection for which no type is derived is the one that wants no
  field.
\<close>

theorem derive_exact_fields:
  "case derive T S of
     Inl e \<Rightarrow> wanted S = []
   | Inr R \<Rightarrow>
       set (map fst R) = set (wanted S) \<inter> set (map fst T)
       \<and> (\<forall>f \<in> set (map fst R). map_of R f = map_of T f)"
proof (cases "wanted S = []")
  case True
  then show ?thesis by (simp add: derive_def)
next
  case False
  let ?R = "filter (\<lambda>(f, t). f \<in> set (wanted S)) T"
  have d: "derive T S = Inr ?R" using False by (simp add: derive_def)
  have fields: "set (map fst ?R) = set (wanted S) \<inter> set (map fst T)"
    by (auto simp: image_iff)
  have same: "map_of ?R f = map_of T f" if "f \<in> set (map fst ?R)" for f
  proof -
    from that have "f \<in> set (wanted S)" by auto
    then show ?thesis by (rule map_of_filter_key)
  qed
  show ?thesis unfolding d using fields same by simp
qed

text \<open>The selection \<^verbatim>\<open>{id, title}\<close> against \<^verbatim>\<open>Post\<close>.\<close>

theorem derive_exact_fields_witness:
  "derive Post_type [(''id'', True), (''title'', True)]
     = Inr [(''id'', \<lparr>kind = ''ID'', nullable = False\<rparr>),
            (''title'', \<lparr>kind = ''String'', nullable = False\<rparr>)]
   \<and> set (map fst [(''id'', \<lparr>kind = ''ID'', nullable = False\<rparr>),
                     (''title'', \<lparr>kind = ''String'', nullable = False\<rparr>)])
       = {''id'', ''title''} \<inter> set (map fst Post_type)"
  using derive_exact_fields [where T = Post_type and S = "[(''id'', True), (''title'', True)]"]
  by (simp add: derive_def wanted_def Post_type_def ReturnTypes_def)

text \<open>
  C8. A selection shape that requests no field of an object type is rejected with an
  error; and a derived type for a selection over the type's fields is never empty.
\<close>

theorem derive_rejects_empty_selection:
  "(wanted S = [] \<longrightarrow> derive T S = Inl EmptySelection)
   \<and> (\<forall>R. derive T S = Inr R \<and> set (wanted S) \<subseteq> set (map fst T) \<longrightarrow> R \<noteq> [])"
proof (intro conjI allI impI)
  assume "wanted S = []"
  then show "derive T S = Inl EmptySelection" by (simp add: derive_def)
next
  fix R
  assume a: "derive T S = Inr R \<and> set (wanted S) \<subseteq> set (map fst T)"
  then have ne: "wanted S \<noteq> []" and R: "R = filter (\<lambda>(f, t). f \<in> set (wanted S)) T"
    by (auto simp: derive_def split: if_splits)
  from ne obtain f where f: "f \<in> set (wanted S)" by (cases "wanted S") auto
  with a obtain t where "(f, t) \<in> set T" by auto
  with f have "(f, t) \<in> set R" unfolding R by simp
  then show "R \<noteq> []" by auto
qed

theorem derive_rejects_empty_selection_witness:
  "derive Post_type [(''id'', False), (''title'', False), (''body'', False)] = Inl EmptySelection
   \<and> derive Post_type [] = Inl EmptySelection
   \<and> derive Post_type [(''body'', True)] = Inr [(''body'', \<lparr>kind = ''String'', nullable = False\<rparr>)]"
  using derive_rejects_empty_selection
      [where T = Post_type and S = "[(''id'', False), (''title'', False), (''body'', False)]"]
    derive_rejects_empty_selection [where T = Post_type and S = "[(''body'', True)]"]
  by (simp add: derive_def wanted_def Post_type_def ReturnTypes_def)

section \<open>The transport wrapper\<close>

text \<open>
  C2, as stated, fails twice: \<^verbatim>\<open>mutate\<close> gives the generated function the request object
  alone, so the wrapper gets no variables and the JSON body of the request is
  \<^verbatim>\<open>{"query": text}\<close>, without a \<^verbatim>\<open>variables\<close> member; and with the server answering
  \<^verbatim>\<open>{"data":{"createPost":{"id":"1"}}}\<close> the caller receives the \<^verbatim>\<open>data\<close> object
  \<^verbatim>\<open>{createPost: {id: "1"}}\<close>, which is not \<^verbatim>\<open>{id: "1"}\<close>.
\<close>

theorem createPost_round_trip_counterexample:
  "mutate (\<lambda>operation m. createPost_text) (network (\<lambda>r. Some created_response))
       createPost_mutation []
     = (Inr (Some (JObj [(''createPost'', JObj [(''id'', JStr ''1'')])])),
        [\<lparr>url = ''http://localhost:4000/graphql'', method = ''POST'',
          headers = [(''Content-Type'', ''application/json'')],
          body = JObj [(''query'', JStr createPost_text)]\<rparr>])
   \<and> JObj [(''query'', JStr createPost_text)]
       \<noteq> JObj [(''query'', JStr createPost_text),
                (''variables'', JObj [(''title'', JStr ''A''), (''body'', JStr ''B'')])]
   \<and> JObj [(''createPost'', JObj [(''id'', JStr ''1'')])] \<noteq> JObj [(''id'', JStr ''1'')]"
  by (simp add: mutate_def thunder_def Thunder_def network_def created_response_def
      JSON_stringify_def List.map_filter_simps)

text \<open>
  C2, amended. Whatever operation text the generated client makes of the request, \<^verbatim>\<open>mutate\<close>
  sends it as one POST to the endpoint whose JSON body is \<^verbatim>\<open>{"query": text}\<close>, with no
  \<^verbatim>\<open>variables\<close> member; when the server answers with
  \<^verbatim>\<open>{"data":{"createPost":{"id":"1"}}}\<close>, the caller receives the \<^verbatim>\<open>data\<close> object
  \<^verbatim>\<open>{createPost: {id: "1"}}\<close>.
\<close>

theorem createPost_round_trip:
  assumes "server \<lparr>url = ''http://localhost:4000/graphql'', method = ''POST'',
                 headers = [(''Content-Type'', ''application/json'')],
                 body = JObj [(''query'', JStr (Zeus ''mutation'' m))]\<rparr> = Some answer"
    and "json_of answer = Some (JObj [(''data'', JObj [(''createPost'', JObj [(''id'', JStr ''1'')])])])"
  shows "mutate Zeus (network server) m [] =
           (Inr (Some (JObj [(''createPost'', JObj [(''id'', JStr ''1'')])])),
            [\<lparr>url = ''http://localhost:4000/graphql'', method = ''POST'',
              headers = [(''Content-Type'', ''application/json'')],
              body = JObj [(''query'', JStr (Zeus ''mutation'' m))]\<rparr>])"
  using assms
  by (simp add: mutate_def thunder_def Thunder_def network_def JSON_stringify_def
      List.map_filter_simps)

theorem createPost_round_trip_witness:
  "mutate (\<lambda>operation m. createPost_text) (network (\<lambda>r. Some created_response))
       createPost_mutation [] =
     (Inr (Some (JObj [(''createPost'', JObj [(''id'', JStr ''1'')])])),
      [\<lparr>url = ''http://localhost:4000/graphql'', method = ''POST'',
        headers = [(''Content-Type'', ''application/json'')],
        body = JObj [(''query'', JStr createPost_text)]\<rparr>])"
proof -
  have a: "json_of created_response =
      Some (JObj [(''data'', JObj [(''createPost'', JObj [(''id'', JStr ''1'')])])])"
    by (simp add: created_response_def)
  from createPost_round_trip
    [where Zeus = "\<lambda>operation m. createPost_text" and m = createPost_mutation
       and server = "\<lambda>r. Some created_response" and answer = created_response, OF _ a]
  show ?thesis by simp
qed

text \<open>
  C9, as stated, fails: a server answer that carries only an \<^verbatim>\<open>errors\<close> payload, with
  status 500, is no failure for the caller of \<^verbatim>\<open>mutate\<close> or \<^verbatim>\<open>query\<close>: the call resolves
  with \<^verbatim>\<open>undefined\<close>.
\<close>

theorem errors_payload_counterexample:
  "fst (mutate (\<lambda>operation m. createPost_text) (network (\<lambda>r. Some errors_response))
          createPost_mutation [])
     = Inr None
   \<and> fst (query (\<lambda>operation m. posts_text) posts_query
            (network (\<lambda>r. Some errors_response)) [])
     = Inr None"
  by (simp add: mutate_def query_def thunder_def Thunder_def network_def
      errors_response_def JSON_stringify_def)

text \<open>
  C9, amended. \<^verbatim>\<open>query\<close> (explicit fetch) and \<^verbatim>\<open>mutate\<close> (ambient fetch) each send exactly
  one request: a POST to the fixed endpoint whose JSON body holds the operation text and
  the variables (\<^verbatim>\<open>thunder\<close> does so for any variables; the two wrappers give none, and a
  member that is \<^verbatim>\<open>undefined\<close> is left out of the body). Nothing is retried and neither the
  status nor an \<^verbatim>\<open>errors\<close> member is looked at: the call fails only when fetch rejects,
  when the body is not JSON or when it is \<^verbatim>\<open>null\<close>; otherwise it resolves with the \<^verbatim>\<open>data\<close>
  member of the answer, which is \<^verbatim>\<open>undefined\<close> when the answer has none.
\<close>

theorem transport_one_post_data_unwrapped:
  "(let r = (\<lambda>operation request variables.
                \<lparr>url = ''http://localhost:4000/graphql'', method = ''POST'',
                 headers = [(''Content-Type'', ''application/json'')],
                 body = JSON_stringify [(''query'', Some (JStr (Zeus operation request))),
                                        (''variables'', variables)]\<rparr>);
        settle = (\<lambda>answer. case answer of
                    None \<Rightarrow> Inl FetchRejected
                  | Some response \<Rightarrow>
                      (case json_of response of
                         None \<Rightarrow> Inl SyntaxError
                       | Some JNull \<Rightarrow> Inl TypeError
                       | Some (JObj members) \<Rightarrow> Inr (map_of members ''data'')
                       | Some other \<Rightarrow> Inr None))
    in thunder Zeus (network server) operation request variables sent
         = (settle (server (r operation request variables)),
            sent @ [r operation request variables])
     \<and> query Zeus q (network server) sent
         = (settle (server (r ''query'' q None)), sent @ [r ''query'' q None])
     \<and> mutate Zeus (network server) m sent
         = (settle (server (r ''mutation'' m None)), sent @ [r ''mutation'' m None]))"
  unfolding Let_def query_def mutate_def thunder_network data_of_cases
  by (intro conjI) (rule refl)+

theorem transport_one_post_data_unwrapped_witness:
  "query (\<lambda>operation m. posts_text) posts_query (network (\<lambda>r. Some errors_response)) [] =
     (Inr None,
      [\<lparr>url = ''http://localhost:4000/graphql'', method = ''POST'',
        headers = [(''Content-Type'', ''application/json'')],
        body = JObj [(''query'', JStr posts_text)]\<rparr>])
   \<and> mutate (\<lambda>operation m. createPost_text) (network (\<lambda>r. None)) createPost_mutation [] =
     (Inl FetchRejected,
      [\<lparr>url = ''http://localhost:4000/graphql'', method = ''POST'',
        headers = [(''Content-Type'', ''application/json'')],
        body = JObj [(''query'', JStr createPost_text)]\<rparr>])
   \<and> thunder (\<lambda>operation m. createPost_text) (network (\<lambda>r. Some created_response))
        ''mutation'' createPost_mutation
        (Some (JObj [(''title'', JStr ''A''), (''body'', JStr ''B'')])) [] =
     (Inr (Some (JObj [(''createPost'', JObj [(''id'', JStr ''1'')])])),
      [\<lparr>url = ''http://localhost:4000/graphql'', method = ''POST'',
        headers = [(''Content-Type'', ''application/json'')],
        body = JObj [(''query'', JStr createPost_text),
                     (''variables'', JObj [(''title'', JStr ''A''), (''body'', JStr ''B'')])]\<rparr>])"
  using transport_one_post_data_unwrapped
      [where Zeus = "\<lambda>operation m. posts_text" and q = posts_query
         and server = "\<lambda>r. Some errors_response" and sent = "[]"]
    transport_one_post_data_unwrapped
      [where Zeus = "\<lambda>operation m. createPost_text" and m = createPost_mutation
         and server = "\<lambda>r. None" and sent = "[]"]
    transport_one_post_data_unwrapped
      [where Zeus = "\<lambda>operation m. createPost_text" and request = createPost_mutation
         and operation = "''mutation''"
         and variables = "Some (JObj [(''title'', JStr ''A''), (''body'', JStr ''B'')])"
         and server = "\<lambda>r. Some created_response" and sent = "[]"]
  by (simp add: Let_def JSON_stringify_def List.map_filter_simps errors_response_def
      created_response_def)

section \<open>The \<^verbatim>\<open>posts\<close> field\<close>

text \<open>
  C3. With eleven posts in the table the \<^verbatim>\<open>posts\<close> resolver of \<^verbatim>\<open>schema.ts\<close> (and of
  \<^verbatim>\<open>src/unnamed/part_001\<close>) returns eleven, not at most ten; the same resolver as listed in
  \<^verbatim>\<open>src/unnamed/part_005\<close> and \<^verbatim>\<open>part_006\<close>, with \<^verbatim>\<open>take: 10\<close>, returns the ten with the
  highest identifiers. Both return P3, P2, P1 for entities created in the order P1, P2,
  P3.
\<close>

theorem posts_limit_missing:
  "length (posts_resolve () (create_all (replicate 11 (''t'', ''b'')) [])) = 11
   \<and> \<not> length (posts_resolve () (create_all (replicate 11 (''t'', ''b'')) [])) \<le> 10
   \<and> map post_id (posts_resolve_part_005 () (create_all (replicate 11 (''t'', ''b'')) []))
       = [11, 10, 9, 8, 7, 6, 5, 4, 3, 2]
   \<and> map post_id (posts_resolve () (create_all [(''a'', ''x''), (''b'', ''y''), (''c'', ''z'')] []))
       = [3, 2, 1]
   \<and> map post_id (posts_resolve_part_005 ()
         (create_all [(''a'', ''x''), (''b'', ''y''), (''c'', ''z'')] []))
       = [3, 2, 1]"
proof -
  have "\<not> length (posts_resolve () (create_all (replicate 11 (''t'', ''b'')) [])) \<le> 10"
    using eleven_all by simp
  with eleven_all eleven_part_005 three_all three_part_005 show ?thesis by (intro conjI)
qed

text \<open>
  C4, as stated, fails: the \<^verbatim>\<open>posts\<close> field is declared without arguments, and the
  generated table of argument types has no entry for \<^verbatim>\<open>Query\<close>: neither an order nor a
  maximum count is part of the field's signature.
\<close>

theorem posts_field_signature_counterexample:
  "map_of (queryType schema) ''posts'' = Some posts_field
   \<and> args posts_field = []
   \<and> map_of AllTypesProps ''Query'' = None"
  by (simp add: schema_def posts_field_def AllTypesProps_def)

text \<open>
  C4, amended. The \<^verbatim>\<open>posts\<close> field takes no argument: neither an order nor a maximum
  count is part of its signature, and the rows that the resolver returns are the same
  whatever the caller sends (in the version of \<^verbatim>\<open>schema.ts\<close> and in the one of
  \<^verbatim>\<open>src/unnamed/part_005\<close>).
\<close>

theorem posts_order_not_caller_specifiable:
  "args posts_field = []
   \<and> posts_resolve q rows = posts_resolve q' rows
   \<and> posts_resolve_part_005 q rows = posts_resolve_part_005 q' rows"
  by (simp add: posts_field_def posts_resolve_def posts_resolve_part_005_def findMany_def)

section \<open>Publishing the schema\<close>

text \<open>
  C5. In a checkout without a \<^verbatim>\<open>build/\<close> directory, \<^verbatim>\<open>writeSchema\<close> of \<^verbatim>\<open>schema.ts\<close> does not
  create the directory and fails with \<^verbatim>\<open>ENOENT\<close>; the \<^verbatim>\<open>writeSchema\<close> of
  \<^verbatim>\<open>src/unnamed/part_001\<close>, which calls \<^verbatim>\<open>mkdir\<close> first, writes the artifact there.
\<close>

theorem writeSchema_without_build_dir:
  "writeSchema printSchema ''/app'' checkout_without_build = Inl ENOENT
   \<and> map_sum id (\<lambda>fs'. fs' [''app'', ''build'', ''schema.graphql''])
        (writeSchema_part_001 printSchema ''/app'' checkout_without_build)
       = Inr (Some (File (printSchema schema)))"
  by (simp add: writeSchema_def writeSchema_part_001_def mkdir_recursive_def writeFile_def
      checkout_without_build_def schema_path_app build_dir_app)

text \<open>
  C6. Publishing is idempotent: after a publication that succeeded, publishing the same
  graph again succeeds and leaves the file system as it is; the artifact holds the
  printed schema, byte for byte.
\<close>

theorem writeSchema_idempotent:
  "writeSchema printSchema cwd fs = Inr fs1 \<Longrightarrow>
     writeSchema printSchema cwd fs1 = Inr fs1
     \<and> fs1 (schema_path cwd) = Some (File (printSchema schema))"
proof -
  assume first: "writeSchema printSchema cwd fs = Inr fs1"
  then have again: "writeSchema printSchema cwd fs1 = Inr fs1"
    unfolding writeSchema_def by (rule writeFile_twice)
  from first have "fs1 (schema_path cwd) = Some (File (printSchema schema))"
    unfolding writeSchema_def by (rule writeFile_content)
  with again show ?thesis by simp
qed

theorem writeSchema_idempotent_witness:
  "writeSchema (\<lambda>g. README_schema_graphql) ''/app''
      (checkout_built([''app'', ''build'', ''schema.graphql''] \<mapsto> File README_schema_graphql))
     = Inr (checkout_built([''app'', ''build'', ''schema.graphql''] \<mapsto> File README_schema_graphql))
   \<and> writeSchema (\<lambda>g. README_schema_graphql) ''/app'' checkout_built
     = Inr (checkout_built([''app'', ''build'', ''schema.graphql''] \<mapsto> File README_schema_graphql))"
proof -
  have first: "writeSchema (\<lambda>g. README_schema_graphql) ''/app'' checkout_built
     = Inr (checkout_built([''app'', ''build'', ''schema.graphql''] \<mapsto> File README_schema_graphql))"
    by (simp add: writeSchema_def writeFile_def schema_path_app checkout_built_def)
  from writeSchema_idempotent [OF first] first show ?thesis by simp
qed




text \<open>
  C10. The working directories \<^verbatim>\<open>/srv/a#1\<close> and \<^verbatim>\<open>/srv/a#2\<close> differ, and \<^verbatim>\<open>writeSchema\<close>
  writes to the same file for both, \<^verbatim>\<open>/srv/build/schema.graphql\<close>, which is in neither of
  them: the \<^verbatim>\<open>#\<close> spliced into the URL starts its fragment. For \<^verbatim>\<open>/srv/a\<close> the file is
  \<^verbatim>\<open>/srv/a/build/schema.graphql\<close>, as for every directory of ordinary names
  (\<open>schema_path_plain\<close>).
\<close>

theorem schema_path_fragment_collision:
  "schema_path ''/srv/a#1'' = [''srv'', ''build'', ''schema.graphql'']
   \<and> schema_path ''/srv/a#2'' = [''srv'', ''build'', ''schema.graphql'']
   \<and> schema_path ''/srv/a'' = [''srv'', ''a'', ''build'', ''schema.graphql'']"
  by code_simp

end
